theory Spec2Isabelle
  imports Main
begin

section \<open>Python list and string primitives used by DiscordGemini.py\<close>

text \<open>
  Python text is a sequence of code points. It is modelled as a HOL \<open>string\<close> with one
  \<open>char\<close> per code point, so the model covers the code points 0..255 and \<open>length\<close> counts
  what Python's \<open>len\<close> counts.
\<close>

text \<open>
  \<open>xs[start:]\<close> for an integer \<open>start\<close>: a negative start counts from the end and is
  clamped at the beginning, a start beyond the end gives the empty list.
\<close>

definition slice_from :: "int \<Rightarrow> 'a list \<Rightarrow> 'a list" where
  "slice_from start xs =
     (let n = int (length xs);
          i = (if start < 0 then max (n + start) 0 else min start n)
      in drop (nat i) xs)"

text \<open>\<open>xs[:stop]\<close> for a non-negative \<open>stop\<close>.\<close>

definition slice_to :: "nat \<Rightarrow> 'a list \<Rightarrow> 'a list" where
  "slice_to stop xs = take stop xs"

text \<open>
  \<open>str.isspace\<close> on one code point, as \<open>str.strip()\<close> uses it: tab, line feed, vertical
  tab, form feed, carriage return, the separators 0x1C..0x1F, space, NEL (0x85) and the
  no-break space (0xA0).
\<close>

definition isspace :: "char \<Rightarrow> bool" where
  "isspace c =
     (let n = (of_char c :: nat)
      in (9 \<le> n \<and> n \<le> 13) \<or> (28 \<le> n \<and> n \<le> 32) \<or> n = 133 \<or> n = 160)"

text \<open>\<open>s.strip()\<close>: whitespace removed from both ends.\<close>

definition strip :: "string \<Rightarrow> string" where
  "strip s = rev (dropWhile isspace (rev (dropWhile isspace s)))"

text \<open>
  \<open>str.upper()\<close> on one code point: a..z and the accented small letters go to their
  capitals 32 below, sharp s goes to \<open>SS\<close>. The capitals of the micro sign (0xB5) and of
  y with diaeresis (0xFF) lie beyond 0xFF; they are left as they are, which no comparison
  with an ASCII literal can tell apart.
\<close>

definition upper_char :: "char \<Rightarrow> string" where
  "upper_char c =
     (let n = (of_char c :: nat)
      in if 97 \<le> n \<and> n \<le> 122 then [char_of (n - 32)]
         else if n = 223 then ''SS''
         else if (224 \<le> n \<and> n \<le> 246) \<or> (248 \<le> n \<and> n \<le> 254) then [char_of (n - 32)]
         else [c])"

definition upper :: "string \<Rightarrow> string" where
  "upper s = concat (map upper_char s)"

text \<open>
  The line boundaries of \<open>str.splitlines()\<close>: line feed, vertical tab, form feed,
  carriage return, the separators 0x1C..0x1E and NEL.
\<close>

definition islinebreak :: "char \<Rightarrow> bool" where
  "islinebreak c =
     (let n = (of_char c :: nat)
      in (10 \<le> n \<and> n \<le> 13) \<or> (28 \<le> n \<and> n \<le> 30) \<or> n = 133)"

text \<open>
  \<open>s.splitlines()\<close>, with the line read so far in \<open>cur\<close> (reversed). A line ends at a
  line boundary, CR LF counts as one boundary, and nothing is added for the empty rest
  after the last boundary.
\<close>

fun splitlines_from :: "string \<Rightarrow> string \<Rightarrow> string list" where
  "splitlines_from cur [] = (if cur = [] then [] else [rev cur])"
| "splitlines_from cur (c # cs) =
     (if islinebreak c then
        rev cur #
          (case cs of
             [] \<Rightarrow> []
           | d # ds \<Rightarrow>
               if c = CHR 0x0D \<and> d = CHR 0x0A then splitlines_from [] ds
               else splitlines_from [] (d # ds))
      else splitlines_from (c # cur) cs)"

definition splitlines :: "string \<Rightarrow> string list" where
  "splitlines s = splitlines_from [] s"

text \<open>\<open>s.startswith(p)\<close>\<close>

definition startswith :: "string \<Rightarrow> string \<Rightarrow> bool" where
  "startswith s p = (take (length p) s = p)"

text \<open>\<open>sep.join(xs)\<close>\<close>

fun join :: "string \<Rightarrow> string list \<Rightarrow> string" where
  "join sep [] = []"
| "join sep [x] = x"
| "join sep (x # y # ys) = x @ sep @ join sep (y # ys)"

text \<open>A text of several lines, each ended by a line feed.\<close>

definition lines_text :: "string list \<Rightarrow> string" where
  "lines_text ls = concat (map (\<lambda>l. l @ [CHR 0x0A]) ls)"

section \<open>Session Manager: the short-term buffer\<close>

definition SHORT_TERM_TURNS :: int where
  "SHORT_TERM_TURNS = 6"

record turn =
  role :: string
  content :: string

text \<open>\<open>return short_term[-SHORT_TERM_TURNS * 2:]\<close>\<close>

definition trim_short_term :: "'a list \<Rightarrow> 'a list" where
  "trim_short_term short_term = slice_from (- SHORT_TERM_TURNS * 2) short_term"

section \<open>Model Gateway\<close>

definition MODELS :: "string list" where
  "MODELS =
     [''gemma-3-27b-it'',
      ''gemma-3-12b-it'',
      ''gemma-3-4b-it'',
      ''gemma-3-2b-it'',
      ''gemma-3-1b-it'',
      ''gemini-2.5-flash-lite'']"

text \<open>
  The exceptions the code can meet. \<open>ClientError\<close> is the class of
  \<open>google.genai.errors\<close>; its instances carry the HTTP status in the attribute \<open>code\<close>
  (next to \<open>status\<close>, \<open>message\<close>, \<open>details\<close> and \<open>response\<close>), and that is the integer
  kept here. \<open>OtherError\<close> is any exception that is not a \<open>ClientError\<close> (server error,
  network fault), by name.
\<close>

datatype exc =
  ClientError int
| IndexError
| TypeError
| AttributeError
| OtherError string

text \<open>
  The response object, as far as \<open>r.candidates[0].content.parts[0].text\<close> walks it.
  Every field may be \<open>None\<close> and both lists may be empty.
\<close>

datatype part = Part (part_text: "string option")

datatype content = Content (parts: "part list option")

datatype candidate = Candidate (cand_content: "content option")

datatype response = Response (candidates: "candidate list option")

text \<open>What one backend call (\<open>chats.create\<close> and \<open>send_message\<close>) does.\<close>

datatype outcome = Reply response | Raise exc

text \<open>
  The backend is an oracle outside the program. A call is the pair of model identifier
  and prompt; the oracle maps the calls made so far, the current one last, to the outcome
  of the current call. The list of calls is the state that \<open>call_model\<close> changes, and its
  length is the number of backend calls.
\<close>

type_synonym call = "string \<times> string"

type_synonym backend = "call list \<Rightarrow> outcome"

text \<open>
  \<open>r.candidates[0].content.parts[0].text\<close>: subscripting \<open>None\<close> is a TypeError, an empty
  list an IndexError, an attribute of \<open>None\<close> an AttributeError (for the text, raised by
  \<open>.strip()\<close>).
\<close>

definition first_text :: "response \<Rightarrow> exc + string" where
  "first_text r =
     (case candidates r of
        None \<Rightarrow> Inl TypeError
      | Some [] \<Rightarrow> Inl IndexError
      | Some (c # _) \<Rightarrow>
          (case cand_content c of
             None \<Rightarrow> Inl AttributeError
           | Some ct \<Rightarrow>
               (case parts ct of
                  None \<Rightarrow> Inl TypeError
                | Some [] \<Rightarrow> Inl IndexError
                | Some (p # _) \<Rightarrow>
                    (case part_text p of
                       None \<Rightarrow> Inl AttributeError
                     | Some t \<Rightarrow> Inr t))))"

definition unavailable :: string where
  \<open>unavailable = ''I'm temporarily unavailable.''\<close>

text \<open>
  \<open>e.status_code\<close> for a caught \<open>ClientError\<close>. Neither the class nor its instances have
  an attribute of that name (the status is in \<open>code\<close>), so the lookup raises an
  AttributeError whatever the status is.
\<close>

definition status_code :: "exc \<Rightarrow> exc + int" where
  "status_code e = Inl AttributeError"

text \<open>
  The loop \<open>for model in MODELS\<close> of \<open>call_model\<close>, from the models still to try. The
  handler \<open>except ClientError as e\<close> first evaluates \<open>e.status_code\<close>; an exception raised
  there leaves the function. Were the value 429 the loop would go on to the next model,
  and otherwise \<open>raise e\<close> would raise the caught error again. Every exception that is
  not a \<open>ClientError\<close> leaves the function, and the end of the list returns the fixed
  reply.
\<close>

fun call_model_from :: "backend \<Rightarrow> string list \<Rightarrow> string \<Rightarrow> call list \<Rightarrow> (exc + string) \<times> call list" where
  "call_model_from be [] prompt calls = (Inr unavailable, calls)"
| "call_model_from be (model # rest) prompt calls =
     (let calls' = calls @ [(model, prompt)]
      in case be calls' of
           Reply r \<Rightarrow>
             (case first_text r of
                Inl e \<Rightarrow> (Inl e, calls')
              | Inr t \<Rightarrow> (Inr (strip t), calls'))
         | Raise e \<Rightarrow>
             (case e of
                ClientError code \<Rightarrow>
                  (case status_code e of
                     Inl a \<Rightarrow> (Inl a, calls')
                   | Inr sc \<Rightarrow>
                       if sc = 429 then call_model_from be rest prompt calls'
                       else (Inl e, calls'))
              | _ \<Rightarrow> (Inl e, calls')))"

definition call_model :: "backend \<Rightarrow> string \<Rightarrow> call list \<Rightarrow> (exc + string) \<times> call list" where
  "call_model be prompt calls = call_model_from be MODELS prompt calls"

text \<open>The calls that trying the first \<open>k\<close> models with a prompt adds.\<close>

definition attempts :: "string \<Rightarrow> nat \<Rightarrow> call list" where
  "attempts prompt k = map (\<lambda>model. (model, prompt)) (take k MODELS)"

text \<open>A well-formed response carrying one text.\<close>

definition text_response :: "string \<Rightarrow> response" where
  "text_response t = Response (Some [Candidate (Some (Content (Some [Part (Some t)])))])"

section \<open>Long-Term Memory Curator and Relevance Filter\<close>

text \<open>
  \<open>[line[2:].strip() for line in result.splitlines() if line.startswith("- ")]\<close>, the
  comprehension that ends both \<open>update_memories\<close> and \<open>get_relevant_memories\<close>.
\<close>

definition bullet_facts :: "string \<Rightarrow> string list" where
  "bullet_facts result =
     map (\<lambda>line. strip (slice_from 2 line))
       (filter (\<lambda>line. startswith line ''- '') (splitlines result))"

text \<open>\<open>chr(10).join('- ' + m for m in ms)\<close>\<close>

definition bulleted :: "string list \<Rightarrow> string" where
  "bulleted ms = join [CHR 0x0A] (map (\<lambda>m. ''- '' @ m) ms)"

text \<open>The prompt of \<open>update_memories\<close>; an empty memory list is shown as \<open>NONE\<close>.\<close>

definition update_prompt :: "string \<Rightarrow> string list \<Rightarrow> string" where
  \<open>update_prompt user_message existing_memories =
     lines_text
       ['''',
        ''You are a LONG-TERM MEMORY FILTER.'',
        '''',
        ''Existing memories:'',
        (if bulleted existing_memories = [] then ''NONE'' else bulleted existing_memories),
        '''',
        ''New user message:'',
        user_message,
        '''',
        ''STRICT RULES:'',
        ''- Save only durable personal info (identity, preferences, projects, constraints)'',
        ''- Ignore conversation, questions, debugging, temporary info'',
        ''- If nothing qualifies, respond EXACTLY: NONE'',
        ''- Merge and deduplicate'',
        ''- Keep each memory factual, neutral, under 80 characters'',
        ''- Do not reference the conversation or user message'',
        ''- Keep the amount of memories manageable (max 20)'',
        ''- If the user has more than 15 memories, prioritize the most relevant ones'',
        ''- Delete less relevant memories if necessary'',
        ''- If the message has 'Always must be included' ensure that memory is kept and is not edited in any way.'',
        ''- Output bullet list only:'',
        ''EXAMPLE OUTPUT:'',
        ''- Memory 1'',
        ''- Memory 2'']\<close>

definition update_memories :: "backend \<Rightarrow> string \<Rightarrow> string list \<Rightarrow> call list \<Rightarrow> (exc + string list) \<times> call list" where
  "update_memories be user_message existing_memories calls =
     (case call_model be (update_prompt user_message existing_memories) calls of
        (Inl e, calls') \<Rightarrow> (Inl e, calls')
      | (Inr result, calls') \<Rightarrow>
          if upper (strip result) = ''NONE'' then (Inr existing_memories, calls')
          else (Inr (bullet_facts result), calls'))"

text \<open>The prompt of \<open>get_relevant_memories\<close>.\<close>

definition relevance_prompt :: "string \<Rightarrow> string list \<Rightarrow> string" where
  \<open>relevance_prompt user_message long_term =
     lines_text
       ['''',
        ''You are a memory relevance filter.'',
        ''User said: "'' @ user_message @ ''"'',
        '''',
        ''Existing memories:'',
        bulleted long_term,
        '''',
        ''RULES:'',
        ''- Only keep memories that are directly relevant to the user's message.'',
        ''- Discard unrelated memories.'',
        ''- Output a bullet list of relevant memories only, or NONE if none apply.'',
        ''- The name is ALWAYS relevant and should almost ALWAYS be included.'',
        ''- Do not modify the memories in any way.'',
        ''- If the memory includes 'Always must be included' the memory must be included in the output.'',
        ''- EXAMPLE OUTPUT:'',
        ''- Relevant memory 1'',
        ''- Relevant memory 2'']\<close>

definition get_relevant_memories :: "backend \<Rightarrow> string \<Rightarrow> string list \<Rightarrow> call list \<Rightarrow> (exc + string list) \<times> call list" where
  "get_relevant_memories be user_message long_term calls =
     (if long_term = [] then (Inr [], calls)
      else
        (case call_model be (relevance_prompt user_message long_term) calls of
           (Inl e, calls') \<Rightarrow> (Inl e, calls')
         | (Inr result, calls') \<Rightarrow>
             if upper (strip result) = ''NONE'' then (Inr [], calls')
             else (Inr (bullet_facts result), calls')))"

text \<open>
  The preservation marker that the curator's prompt names, and Python's \<open>sub in s\<close>.
\<close>

definition pin_marker :: string where
  "pin_marker = ''Always must be included''"

fun contains :: "string \<Rightarrow> string \<Rightarrow> bool" where
  "contains [] sub = (sub = [])"
| "contains (c # cs) sub = (startswith (c # cs) sub \<or> contains cs sub)"

section \<open>Outbound reply\<close>

text \<open>
  In \<open>ask\<close>, between the reply of \<open>call_model\<close> and \<open>ctx.followup.send(reply)\<close>:
  \<open>if len(reply) > 2000: reply = reply[:1997] + "..."\<close>
\<close>

definition truncate_reply :: "string \<Rightarrow> string" where
  "truncate_reply reply =
     (if length reply > 2000 then slice_to 1997 reply @ ''...'' else reply)"

section \<open>Memory Store: loading\<close>

text \<open>A value that \<open>json.loads\<close> returns; a float is a mantissa and a binary exponent.\<close>

datatype json =
  JNull
| JBool bool
| JInt int
| JFloat int int
| JStr string
| JList "json list"
| JDict "(string \<times> json) list"

text \<open>
  The memory file: it is missing (\<open>os.path.exists\<close> is false), or it exists and opening
  and reading it as UTF-8 either raises or gives its text.
\<close>

datatype memory_file = Missing | Present "exc + string"

text \<open>
  \<open>load_memories\<close>. The JSON parser is a parameter: it returns the parsed value or
  raises. The bare \<open>except:\<close> turns every exception of the \<open>try\<close> body into \<open>{}\<close>.
\<close>

definition load_memories_body :: "(string \<Rightarrow> exc + json) \<Rightarrow> exc + string \<Rightarrow> exc + json" where
  "load_memories_body loads rd =
     (case rd of
        Inl e \<Rightarrow> Inl e
      | Inr text \<Rightarrow>
          (let content = strip text
           in if content = [] then Inr (JDict []) else loads content))"

definition load_memories :: "(string \<Rightarrow> exc + json) \<Rightarrow> memory_file \<Rightarrow> exc + json" where
  "load_memories loads file =
     (case file of
        Missing \<Rightarrow> Inr (JDict [])
      | Present rd \<Rightarrow>
          (case load_memories_body loads rd of
             Inl e \<Rightarrow> Inr (JDict [])
           | Inr v \<Rightarrow> Inr v))"

section \<open>Test doubles\<close>

text \<open>A backend whose every call succeeds with the text \<open>t\<close>.\<close>

definition replying :: "string \<Rightarrow> backend" where
  "replying t calls = Reply (text_response t)"

text \<open>A backend whose every call raises the exception \<open>e\<close>.\<close>

definition raising :: "exc \<Rightarrow> backend" where
  "raising e calls = Raise e"

text \<open>
  A backend whose first call raises the quota error (HTTP status 429) and whose later
  calls succeed with the text \<open>t\<close>.
\<close>

definition quota_then_reply :: "string \<Rightarrow> backend" where
  "quota_then_reply t calls =
     (if length calls \<le> 1 then Raise (ClientError 429) else Reply (text_response t))"

text \<open>A pinned fact, a reply of 21 bullets without it, and a reply that lists it.\<close>

definition pinned_fact :: string where
  "pinned_fact = ''Always must be included: name is Alex''"

definition overfull_reply :: string where
  "overfull_reply = bulleted
     [''a'', ''b'', ''c'', ''d'', ''e'', ''f'', ''g'', ''h'', ''i'', ''j'', ''k'',
      ''l'', ''m'', ''n'', ''o'', ''p'', ''q'', ''r'', ''s'', ''t'', ''u'']"

definition kept_reply :: string where
  "kept_reply = ''- Always must be included: name is Alex'' @ [CHR 0x0A] @ ''- Uses Linux''"

text \<open>A stand-in for \<open>json.loads\<close> that parses one document and rejects every other text.\<close>

definition toy_loads :: "string \<Rightarrow> exc + json" where
  \<open>toy_loads s =
     (if s = ''{"7": {"long": ["Likes tea"]}}''
      then Inr (JDict [(''7'', JDict [(''long'', JList [JStr ''Likes tea''])])])
      else Inl (OtherError ''JSONDecodeError''))\<close>

section \<open>Properties of the short-term buffer\<close>

lemma trim_short_term_drop:
  "trim_short_term b = drop (length b - 12) b"
  by (simp add: trim_short_term_def slice_from_def SHORT_TERM_TURNS_def Let_def
      max_def nat_diff_distrib')

lemma trim_short_term_length:
  "length (trim_short_term b) = min (length b) 12"
  by (simp add: trim_short_term_drop)

text \<open>
  C3. For every short-term buffer, \<open>trim_short_term\<close> returns at most
  \<open>2 * SHORT_TERM_TURNS = 12\<close> entries, and they are the most recently appended entries
  of the input in their original order: the input is some older prefix followed by the
  result, and the result has all 12 last entries as soon as the input has that many.
\<close>

theorem trim_short_term_keeps_most_recent:
  "int (length (trim_short_term b)) \<le> 2 * SHORT_TERM_TURNS
   \<and> 2 * SHORT_TERM_TURNS = 12
   \<and> length (trim_short_term b) = min (length b) 12
   \<and> b = take (length b - 12) b @ trim_short_term b"
proof -
  have "length (trim_short_term b) \<le> 12"
    by (simp add: trim_short_term_length)
  moreover have "b = take (length b - 12) b @ trim_short_term b"
    by (simp add: trim_short_term_drop)
  ultimately show ?thesis
    by (simp add: trim_short_term_length SHORT_TERM_TURNS_def)
qed

text \<open>
  C10. \<open>trim_short_term\<close> is idempotent, and it is the identity on every buffer of at
  most \<open>2 * SHORT_TERM_TURNS\<close> entries.
\<close>

theorem trim_short_term_idempotent:
  "trim_short_term (trim_short_term b) = trim_short_term b
   \<and> (int (length b) \<le> 2 * SHORT_TERM_TURNS \<longrightarrow> trim_short_term b = b)"
  by (simp add: trim_short_term_drop SHORT_TERM_TURNS_def)

theorem trim_short_term_idempotent_witness:
  "int (length [1, 2, 3 :: nat]) \<le> 2 * SHORT_TERM_TURNS
   \<and> trim_short_term [1, 2, 3 :: nat] = [1, 2, 3]"
  using trim_short_term_idempotent [of "[1, 2, 3 :: nat]"]
  by (simp add: SHORT_TERM_TURNS_def)

section \<open>Properties of the Model Gateway\<close>

lemma length_MODELS: "length MODELS = 6"
  by (simp add: MODELS_def)

lemma attempts_1: "attempts prompt (Suc 0) = [(''gemma-3-27b-it'', prompt)]"
  by (simp add: attempts_def MODELS_def)

text \<open>
  Whatever the backend does, \<open>call_model\<close> calls it exactly once, with the first model:
  a response returns or raises while the text is read, and every exception leaves the
  function, a \<open>ClientError\<close> through the failing lookup of \<open>status_code\<close>.
\<close>

lemma call_model_single_call:
  "snd (call_model be prompt calls) = calls @ attempts prompt 1"
  by (simp add: call_model_def MODELS_def attempts_def status_code_def Let_def
      split: outcome.split sum.split exc.split)

lemma call_model_client_error:
  "be (calls @ attempts prompt 1) = Raise (ClientError code)
   \<Longrightarrow> call_model be prompt calls = (Inl AttributeError, calls @ attempts prompt 1)"
  by (simp add: call_model_def MODELS_def attempts_def status_code_def)

lemma call_model_other_exception:
  "be (calls @ attempts prompt 1) = Raise e \<Longrightarrow> \<forall>code. e \<noteq> ClientError code
   \<Longrightarrow> call_model be prompt calls = (Inl e, calls @ attempts prompt 1)"
  by (cases e) (simp_all add: call_model_def MODELS_def attempts_def)

text \<open>
  C1, where the code departs from it. With every model answering the quota error (a
  \<open>ClientError\<close> of status 429), \<open>call_model\<close> does not return the fixed reply
  \<open>I'm temporarily unavailable.\<close> after \<open>length MODELS = 6\<close> calls: it raises an
  AttributeError after one call. With the first model answering the quota error and the
  second succeeding, it does not return the second model's text after two calls: it
  raises the same AttributeError after one call.
\<close>

theorem call_model_quota_not_recovered:
  \<open>call_model (raising (ClientError 429)) ''p'' [] = (Inl AttributeError, [(''gemma-3-27b-it'', ''p'')])
   \<and> call_model (raising (ClientError 429)) ''p'' []
       \<noteq> (Inr ''I'm temporarily unavailable.'', attempts ''p'' (length MODELS))
   \<and> length (snd (call_model (raising (ClientError 429)) ''p'' [])) = 1
   \<and> length MODELS = 6
   \<and> call_model (quota_then_reply '' hi '') ''p'' [] = (Inl AttributeError, [(''gemma-3-27b-it'', ''p'')])
   \<and> call_model (quota_then_reply '' hi '') ''p'' [] \<noteq> (Inr ''hi'', attempts ''p'' 2)\<close>
proof -
  have a: "call_model (raising (ClientError 429)) ''p'' [] = (Inl AttributeError, [(''gemma-3-27b-it'', ''p'')])"
    using call_model_client_error [of "raising (ClientError 429)" "[]" "''p''" 429]
    by (simp add: raising_def attempts_1)
  have b: "call_model (quota_then_reply '' hi '') ''p'' [] = (Inl AttributeError, [(''gemma-3-27b-it'', ''p'')])"
    using call_model_client_error [of "quota_then_reply '' hi ''" "[]" "''p''" 429]
    by (simp add: quota_then_reply_def attempts_1)
  show ?thesis
    by (simp add: a b length_MODELS)
qed

text \<open>
  C2, where the code departs from it. When the first model answers with a \<open>ClientError\<close>
  whose status is not 429 (here 403), no further model is tried, but the error that
  reaches the caller is not that \<open>ClientError\<close>: it is the AttributeError raised by the
  handler's own \<open>e.status_code\<close>. An exception that is not a \<open>ClientError\<close> does reach
  the caller as it is, after the one call.
\<close>

theorem call_model_client_error_masked:
  "call_model (raising (ClientError 403)) ''p'' [] = (Inl AttributeError, [(''gemma-3-27b-it'', ''p'')])
   \<and> call_model (raising (ClientError 403)) ''p'' [] \<noteq> (Inl (ClientError 403), [(''gemma-3-27b-it'', ''p'')])
   \<and> call_model (raising (OtherError ''ServerError'')) ''p'' []
       = (Inl (OtherError ''ServerError''), [(''gemma-3-27b-it'', ''p'')])"
proof -
  have a: "call_model (raising (ClientError 403)) ''p'' [] = (Inl AttributeError, [(''gemma-3-27b-it'', ''p'')])"
    using call_model_client_error [of "raising (ClientError 403)" "[]" "''p''" 403]
    by (simp add: raising_def attempts_1)
  have b: "call_model (raising (OtherError ''ServerError'')) ''p'' []
       = (Inl (OtherError ''ServerError''), [(''gemma-3-27b-it'', ''p'')])"
    using call_model_other_exception [of "raising (OtherError ''ServerError'')" "[]" "''p''" "OtherError ''ServerError''"]
    by (simp add: raising_def attempts_1)
  show ?thesis
    by (simp add: a b)
qed

section \<open>Properties of the Curator and the Relevance Filter\<close>

lemma slice_from_2: "slice_from 2 xs = drop 2 xs"
  by (simp add: slice_from_def Let_def min_def)

lemma bullet_facts_alt:
  "bullet_facts result =
     map (\<lambda>line. strip (drop 2 line)) (filter (\<lambda>line. take 2 line = ''- '') (splitlines result))"
  by (simp add: bullet_facts_def startswith_def slice_from_2 eval_nat_numeral)

lemma call_model_replying':
  "call_model (replying t) prompt calls
     = (Inr (strip t), calls @ [(''gemma-3-27b-it'', prompt)])"
  by (simp add: call_model_def MODELS_def first_text_def text_response_def replying_def)

lemma overfull_facts:
  "bullet_facts (strip overfull_reply) =
     [''a'', ''b'', ''c'', ''d'', ''e'', ''f'', ''g'', ''h'', ''i'', ''j'', ''k'',
      ''l'', ''m'', ''n'', ''o'', ''p'', ''q'', ''r'', ''s'', ''t'', ''u'']"
  by code_simp

lemma overfull_not_none: "upper (strip (strip overfull_reply)) \<noteq> ''NONE''"
  by code_simp

text \<open>
  C4. For every existing fact list: when the reply that \<open>call_model\<close> returns for the
  curator's prompt equals \<open>NONE\<close> after stripping surrounding whitespace and upper-casing,
  \<open>update_memories\<close> returns the existing fact list unchanged.
\<close>

theorem update_memories_none_identity:
  "call_model be (update_prompt user_message existing_memories) calls = (Inr result, calls')
     \<and> upper (strip result) = ''NONE''
   \<longrightarrow> update_memories be user_message existing_memories calls = (Inr existing_memories, calls')"
  by (simp add: update_memories_def)

theorem update_memories_none_identity_witness:
  "update_memories (replying '' None '') ''hello'' [''Likes tea''] []
     = (Inr [''Likes tea''], [(''gemma-3-27b-it'', update_prompt ''hello'' [''Likes tea''])])"
proof -
  have s: "strip '' None '' = ''None''"
    by (simp add: strip_def isspace_def)
  have u: "upper (strip ''None'') = ''NONE''"
    by code_simp
  have c: "call_model (replying '' None '') (update_prompt ''hello'' [''Likes tea'']) []
      = (Inr ''None'', [(''gemma-3-27b-it'', update_prompt ''hello'' [''Likes tea''])])"
    by (simp add: call_model_replying' s)
  from update_memories_none_identity
    [of "replying '' None ''" "''hello''" "[''Likes tea'']" "[]" "''None''"
        "[(''gemma-3-27b-it'', update_prompt ''hello'' [''Likes tea''])]"] c u
  show ?thesis by simp
qed

text \<open>
  C6. For every message, \<open>get_relevant_memories\<close> on the empty fact list returns the empty
  list and leaves the list of backend calls as it was: the backend is not called.
\<close>

theorem get_relevant_memories_empty:
  "get_relevant_memories be user_message [] calls = (Inr [], calls)
   \<and> length (snd (get_relevant_memories be user_message [] calls)) = length calls"
  by (simp add: get_relevant_memories_def)

text \<open>
  C5. For every reply that \<open>call_model\<close> returns and that is not the \<open>NONE\<close> signal, both
  \<open>update_memories\<close> and \<open>get_relevant_memories\<close> return, in order, the lines of the reply
  that begin with the marker \<open>- \<close>, each without the marker and stripped of surrounding
  whitespace; every other line is ignored. The two-bullet reply gives its two facts, an
  interleaved line without a bullet is ignored, and a reply without bullets gives the
  empty list; none of them raises.
\<close>

theorem bullet_parsing:
  "(call_model be (update_prompt user_message existing_memories) calls = (Inr result, calls')
      \<and> upper (strip result) \<noteq> ''NONE''
    \<longrightarrow> update_memories be user_message existing_memories calls
          = (Inr (map (\<lambda>line. strip (drop 2 line))
                   (filter (\<lambda>line. take 2 line = ''- '') (splitlines result))), calls'))
   \<and> (long_term \<noteq> []
      \<and> call_model be (relevance_prompt user_message long_term) calls = (Inr result, calls')
      \<and> upper (strip result) \<noteq> ''NONE''
    \<longrightarrow> get_relevant_memories be user_message long_term calls
          = (Inr (map (\<lambda>line. strip (drop 2 line))
                   (filter (\<lambda>line. take 2 line = ''- '') (splitlines result))), calls'))
   \<and> bullet_facts (''- Likes tea'' @ [CHR 0x0A] @ ''- Uses Linux'') = [''Likes tea'', ''Uses Linux'']
   \<and> bullet_facts (''- Likes tea'' @ [CHR 0x0A] @ ''Here is more:'' @ [CHR 0x0A] @ ''- Uses Linux'')
        = [''Likes tea'', ''Uses Linux'']
   \<and> bullet_facts ''I cannot help with that.'' = []"
proof -
  have a: "call_model be (update_prompt user_message existing_memories) calls = (Inr result, calls')
      \<and> upper (strip result) \<noteq> ''NONE''
    \<longrightarrow> update_memories be user_message existing_memories calls
          = (Inr (map (\<lambda>line. strip (drop 2 line))
                   (filter (\<lambda>line. take 2 line = ''- '') (splitlines result))), calls')"
    by (simp add: update_memories_def bullet_facts_alt)
  have b: "long_term \<noteq> []
      \<and> call_model be (relevance_prompt user_message long_term) calls = (Inr result, calls')
      \<and> upper (strip result) \<noteq> ''NONE''
    \<longrightarrow> get_relevant_memories be user_message long_term calls
          = (Inr (map (\<lambda>line. strip (drop 2 line))
                   (filter (\<lambda>line. take 2 line = ''- '') (splitlines result))), calls')"
    by (simp add: get_relevant_memories_def bullet_facts_alt)
  have c: "bullet_facts (''- Likes tea'' @ [CHR 0x0A] @ ''- Uses Linux'') = [''Likes tea'', ''Uses Linux'']"
    by code_simp
  have d: "bullet_facts (''- Likes tea'' @ [CHR 0x0A] @ ''Here is more:'' @ [CHR 0x0A] @ ''- Uses Linux'')
        = [''Likes tea'', ''Uses Linux'']"
    by code_simp
  have e: "bullet_facts ''I cannot help with that.'' = []"
    by code_simp
  from a b c d e show ?thesis by blast
qed

theorem bullet_parsing_witness:
  "update_memories (replying (''- Likes tea'' @ [CHR 0x0A] @ ''chatter'' @ [CHR 0x0A] @ ''-  Uses Linux ''))
       ''hello'' [''Old fact''] []
     = (Inr [''Likes tea'', ''Uses Linux''], [(''gemma-3-27b-it'', update_prompt ''hello'' [''Old fact''])])
   \<and> get_relevant_memories (replying ''No bullets here'') ''hello'' [''Old fact''] []
     = (Inr [], [(''gemma-3-27b-it'', relevance_prompt ''hello'' [''Old fact''])])"
proof -
  let ?t = "''- Likes tea'' @ [CHR 0x0A] @ ''chatter'' @ [CHR 0x0A] @ ''-  Uses Linux ''"
  let ?r = "''- Likes tea'' @ [CHR 0x0A] @ ''chatter'' @ [CHR 0x0A] @ ''-  Uses Linux''"
  let ?c1 = "[(''gemma-3-27b-it'', update_prompt ''hello'' [''Old fact''])]"
  let ?c2 = "[(''gemma-3-27b-it'', relevance_prompt ''hello'' [''Old fact''])]"
  have s1: "strip ?t = ?r" by code_simp
  have s2: "strip ''No bullets here'' = ''No bullets here''" by code_simp
  have h1: "call_model (replying ?t) (update_prompt ''hello'' [''Old fact'']) [] = (Inr ?r, ?c1)
      \<and> upper (strip ?r) \<noteq> ''NONE''"
  proof
    show "call_model (replying ?t) (update_prompt ''hello'' [''Old fact'']) [] = (Inr ?r, ?c1)"
      using s1 by (simp add: call_model_replying')
    show "upper (strip ?r) \<noteq> ''NONE''" by code_simp
  qed
  have h2: "[''Old fact''] \<noteq> []
      \<and> call_model (replying ''No bullets here'') (relevance_prompt ''hello'' [''Old fact'']) []
          = (Inr ''No bullets here'', ?c2)
      \<and> upper (strip ''No bullets here'') \<noteq> ''NONE''"
  proof (intro conjI)
    show "[''Old fact''] \<noteq> []" by simp
    show "call_model (replying ''No bullets here'') (relevance_prompt ''hello'' [''Old fact'']) []
          = (Inr ''No bullets here'', ?c2)"
      using s2 by (simp add: call_model_replying')
    show "upper (strip ''No bullets here'') \<noteq> ''NONE''" by code_simp
  qed
  have v1: "map (\<lambda>line. strip (drop 2 line)) (filter (\<lambda>line. take 2 line = ''- '') (splitlines ?r))
      = [''Likes tea'', ''Uses Linux'']"
    by code_simp
  have v2: "map (\<lambda>line. strip (drop 2 line))
      (filter (\<lambda>line. take 2 line = ''- '') (splitlines ''No bullets here'')) = []"
    by code_simp
  have a: "update_memories (replying ?t) ''hello'' [''Old fact''] [] = (Inr [''Likes tea'', ''Uses Linux''], ?c1)"
    using bullet_parsing [where be = "replying ?t" and user_message = "''hello''"
        and existing_memories = "[''Old fact'']" and calls = "[]" and result = ?r and calls' = ?c1]
      h1 v1
    by simp
  have b: "get_relevant_memories (replying ''No bullets here'') ''hello'' [''Old fact''] [] = (Inr [], ?c2)"
    using bullet_parsing [where be = "replying ''No bullets here''" and user_message = "''hello''"
        and calls = "[]" and result = "''No bullets here''" and long_term = "[''Old fact'']"
        and calls' = ?c2]
      h2 v2
    by simp
  from a b show ?thesis by simp
qed

text \<open>
  The cap of 20 facts and the pinned facts are rules of the prompt, not of the code: a
  reply of 21 bullets that leaves the pinned fact out gives 21 facts without it.
\<close>

theorem update_memories_cap_pin_counterexample:
  "fst (update_memories (replying overfull_reply) ''hello'' [pinned_fact] [])
     = Inr [''a'', ''b'', ''c'', ''d'', ''e'', ''f'', ''g'', ''h'', ''i'', ''j'', ''k'',
            ''l'', ''m'', ''n'', ''o'', ''p'', ''q'', ''r'', ''s'', ''t'', ''u'']
   \<and> \<not> length [''a'', ''b'', ''c'', ''d'', ''e'', ''f'', ''g'', ''h'', ''i'', ''j'', ''k'',
            ''l'', ''m'', ''n'', ''o'', ''p'', ''q'', ''r'', ''s'', ''t'', ''u''] \<le> (20 :: nat)
   \<and> contains pinned_fact pin_marker
   \<and> pinned_fact \<notin> set [''a'', ''b'', ''c'', ''d'', ''e'', ''f'', ''g'', ''h'', ''i'', ''j'', ''k'',
            ''l'', ''m'', ''n'', ''o'', ''p'', ''q'', ''r'', ''s'', ''t'', ''u'']"
proof (intro conjI)
  show "fst (update_memories (replying overfull_reply) ''hello'' [pinned_fact] [])
     = Inr [''a'', ''b'', ''c'', ''d'', ''e'', ''f'', ''g'', ''h'', ''i'', ''j'', ''k'',
            ''l'', ''m'', ''n'', ''o'', ''p'', ''q'', ''r'', ''s'', ''t'', ''u'']"
    using overfull_not_none
    by (simp add: update_memories_def call_model_replying' overfull_facts)
  show "\<not> length [''a'', ''b'', ''c'', ''d'', ''e'', ''f'', ''g'', ''h'', ''i'', ''j'', ''k'',
            ''l'', ''m'', ''n'', ''o'', ''p'', ''q'', ''r'', ''s'', ''t'', ''u''] \<le> (20 :: nat)"
    by simp
  show "contains pinned_fact pin_marker"
    by code_simp
  show "pinned_fact \<notin> set [''a'', ''b'', ''c'', ''d'', ''e'', ''f'', ''g'', ''h'', ''i'', ''j'', ''k'',
            ''l'', ''m'', ''n'', ''o'', ''p'', ''q'', ''r'', ''s'', ''t'', ''u'']"
    by (simp add: pinned_fact_def)
qed

text \<open>
  C7, as the code has it. \<open>update_memories\<close> returns the existing list on the \<open>NONE\<close>
  signal and the bulleted lines of the reply otherwise. So the result has at most 20
  facts when the existing list has at most 20 facts and the reply has at most 20 bulleted
  lines, and a fact with the marker \<open>Always must be included\<close> that was present before is
  present, unmodified, afterwards when the reply is the \<open>NONE\<close> signal or lists that fact
  as a bulleted line (the fact itself having no surrounding whitespace).
\<close>

theorem update_memories_follows_reply:
  "call_model be (update_prompt user_message existing_memories) calls = (Inr result, calls')
   \<longrightarrow> (\<exists>facts. update_memories be user_message existing_memories calls = (Inr facts, calls')
        \<and> facts = (if upper (strip result) = ''NONE'' then existing_memories
                    else map (\<lambda>line. strip (drop 2 line))
                           (filter (\<lambda>line. take 2 line = ''- '') (splitlines result)))
        \<and> (length existing_memories \<le> 20
             \<and> length (filter (\<lambda>line. startswith line ''- '') (splitlines result)) \<le> 20
           \<longrightarrow> length facts \<le> 20)
        \<and> (\<forall>f \<in> set existing_memories.
              contains f pin_marker
              \<and> (upper (strip result) = ''NONE''
                 \<or> (''- '' @ f \<in> set (splitlines result) \<and> strip f = f))
           \<longrightarrow> f \<in> set facts))"
proof
  assume cm: "call_model be (update_prompt user_message existing_memories) calls = (Inr result, calls')"
  show "\<exists>facts. update_memories be user_message existing_memories calls = (Inr facts, calls')
        \<and> facts = (if upper (strip result) = ''NONE'' then existing_memories
                    else map (\<lambda>line. strip (drop 2 line))
                           (filter (\<lambda>line. take 2 line = ''- '') (splitlines result)))
        \<and> (length existing_memories \<le> 20
             \<and> length (filter (\<lambda>line. startswith line ''- '') (splitlines result)) \<le> 20
           \<longrightarrow> length facts \<le> 20)
        \<and> (\<forall>f \<in> set existing_memories.
              contains f pin_marker
              \<and> (upper (strip result) = ''NONE''
                 \<or> (''- '' @ f \<in> set (splitlines result) \<and> strip f = f))
           \<longrightarrow> f \<in> set facts)"
  proof (cases "upper (strip result) = ''NONE''")
    case True
    then have "update_memories be user_message existing_memories calls = (Inr existing_memories, calls')"
      using cm by (simp add: update_memories_def)
    then show ?thesis using True by auto
  next
    case False
    then have u: "update_memories be user_message existing_memories calls
        = (Inr (bullet_facts result), calls')"
      using cm by (simp add: update_memories_def)
    have len: "length (bullet_facts result)
        = length (filter (\<lambda>line. startswith line ''- '') (splitlines result))"
      by (simp add: bullet_facts_def)
    have pin: "f \<in> set (bullet_facts result)"
      if "''- '' @ f \<in> set (splitlines result)" and "strip f = f" for f
    proof -
      have "''- '' @ f \<in> set (filter (\<lambda>line. take 2 line = ''- '') (splitlines result))"
        using that(1) by simp
      then have "strip (drop 2 (''- '' @ f)) \<in> set (bullet_facts result)"
        unfolding bullet_facts_alt set_map by (rule imageI)
      then show ?thesis using that(2) by simp
    qed
    have alt: "bullet_facts result = map (\<lambda>line. strip (drop 2 line))
        (filter (\<lambda>line. take 2 line = ''- '') (splitlines result))"
      by (rule bullet_facts_alt)
    have cap: "length existing_memories \<le> 20
             \<and> length (filter (\<lambda>line. startswith line ''- '') (splitlines result)) \<le> 20
           \<longrightarrow> length (bullet_facts result) \<le> 20"
      using len by simp
    have pins: "\<forall>f \<in> set existing_memories.
              contains f pin_marker
              \<and> (upper (strip result) = ''NONE''
                 \<or> (''- '' @ f \<in> set (splitlines result) \<and> strip f = f))
           \<longrightarrow> f \<in> set (bullet_facts result)"
      using False pin by blast
    have eq: "bullet_facts result = (if upper (strip result) = ''NONE'' then existing_memories
                    else map (\<lambda>line. strip (drop 2 line))
                           (filter (\<lambda>line. take 2 line = ''- '') (splitlines result)))"
      using False alt by simp
    from u eq cap pins show ?thesis by blast
  qed
qed

theorem update_memories_follows_reply_witness:
  "\<exists>facts. update_memories (replying kept_reply) ''hello'' [pinned_fact, ''Likes tea''] []
        = (Inr facts, [(''gemma-3-27b-it'', update_prompt ''hello'' [pinned_fact, ''Likes tea''])])
     \<and> facts = [pinned_fact, ''Uses Linux'']
     \<and> length facts \<le> 20 \<and> pinned_fact \<in> set facts"
proof -
  let ?calls = "[(''gemma-3-27b-it'', update_prompt ''hello'' [pinned_fact, ''Likes tea''])]"
  have s: "strip kept_reply = kept_reply" by code_simp
  have cm: "call_model (replying kept_reply) (update_prompt ''hello'' [pinned_fact, ''Likes tea'']) []
      = (Inr kept_reply, ?calls)"
    using s by (simp add: call_model_replying')
  have n: "length (filter (\<lambda>line. startswith line ''- '') (splitlines kept_reply)) \<le> 20"
    by code_simp
  have p: "contains pinned_fact pin_marker" by code_simp
  have l: "''- '' @ pinned_fact \<in> set (splitlines kept_reply)" by code_simp
  have f: "strip pinned_fact = pinned_fact" by code_simp
  have nn: "upper (strip kept_reply) \<noteq> ''NONE''" by code_simp
  have v: "map (\<lambda>line. strip (drop 2 line))
      (filter (\<lambda>line. take 2 line = ''- '') (splitlines kept_reply)) = [pinned_fact, ''Uses Linux'']"
    by code_simp
  from update_memories_follows_reply
    [where be = "replying kept_reply" and user_message = "''hello''"
       and existing_memories = "[pinned_fact, ''Likes tea'']" and calls = "[]"
       and result = kept_reply and calls' = ?calls] cm
  obtain facts where
    u: "update_memories (replying kept_reply) ''hello'' [pinned_fact, ''Likes tea''] [] = (Inr facts, ?calls)"
    and eq: "facts = (if upper (strip kept_reply) = ''NONE'' then [pinned_fact, ''Likes tea'']
                    else map (\<lambda>line. strip (drop 2 line))
                           (filter (\<lambda>line. take 2 line = ''- '') (splitlines kept_reply)))"
    and cap: "length [pinned_fact, ''Likes tea''] \<le> 20
             \<and> length (filter (\<lambda>line. startswith line ''- '') (splitlines kept_reply)) \<le> 20
           \<longrightarrow> length facts \<le> 20"
    and pins: "\<forall>f \<in> set [pinned_fact, ''Likes tea''].
              contains f pin_marker
              \<and> (upper (strip kept_reply) = ''NONE''
                 \<or> (''- '' @ f \<in> set (splitlines kept_reply) \<and> strip f = f))
           \<longrightarrow> f \<in> set facts"
    by blast
  from eq nn v have "facts = [pinned_fact, ''Uses Linux'']" by simp
  moreover from cap n have "length facts \<le> 20" by simp
  moreover from pins p l f have "pinned_fact \<in> set facts" by simp
  ultimately show ?thesis using u by blast
qed

section \<open>Properties of the outbound reply and of the Memory Store\<close>

text \<open>
  C8. A reply longer than 2000 characters goes out as its first 1997 characters followed
  by \<open>...\<close>, which is exactly 2000 characters; a reply of at most 2000 characters goes out
  unchanged.
\<close>

theorem truncate_reply_limit:
  "(length reply > 2000
      \<longrightarrow> truncate_reply reply = take 1997 reply @ ''...''
        \<and> length (truncate_reply reply) = 2000)
   \<and> (length reply \<le> 2000 \<longrightarrow> truncate_reply reply = reply)"
  by (simp add: truncate_reply_def slice_to_def)

theorem truncate_reply_limit_witness:
  "truncate_reply (replicate 2500 (CHR ''a'')) = replicate 1997 (CHR ''a'') @ ''...''
   \<and> length (truncate_reply (replicate 2500 (CHR ''a''))) = 2000
   \<and> truncate_reply ''hello'' = ''hello''"
proof -
  have big: "length (replicate 2500 (CHR ''a'')) > 2000" by simp
  have small: "length ''hello'' \<le> 2000" by simp
  have t: "take 1997 (replicate 2500 (CHR ''a'')) = replicate 1997 (CHR ''a'')" by simp
  from truncate_reply_limit [of "replicate 2500 (CHR ''a'')"] big t
  have a: "truncate_reply (replicate 2500 (CHR ''a'')) = replicate 1997 (CHR ''a'') @ ''...''
     \<and> length (truncate_reply (replicate 2500 (CHR ''a''))) = 2000"
    by simp
  from truncate_reply_limit [of "''hello''"] small
  have b: "truncate_reply ''hello'' = ''hello''" by simp
  from a b show ?thesis by simp
qed

text \<open>
  C9. \<open>load_memories\<close> never raises. It returns the empty mapping when the memory file is
  missing, cannot be read, is empty or whitespace only, or is rejected by the JSON parser;
  otherwise it returns what the parser makes of the stripped text.
\<close>

theorem load_memories_total:
  "(\<exists>v. load_memories loads memfile = Inr v)
   \<and> (memfile = Missing \<longrightarrow> load_memories loads memfile = Inr (JDict []))
   \<and> (memfile = Present (Inl e) \<longrightarrow> load_memories loads memfile = Inr (JDict []))
   \<and> (memfile = Present (Inr raw) \<and> strip raw = [] \<longrightarrow> load_memories loads memfile = Inr (JDict []))
   \<and> (memfile = Present (Inr raw) \<and> strip raw \<noteq> [] \<and> loads (strip raw) = Inl e
        \<longrightarrow> load_memories loads memfile = Inr (JDict []))
   \<and> (memfile = Present (Inr raw) \<and> strip raw \<noteq> [] \<and> loads (strip raw) = Inr v
        \<longrightarrow> load_memories loads memfile = Inr v)"
proof -
  have "\<exists>v. load_memories loads memfile = Inr v"
    by (simp add: load_memories_def split: memory_file.split sum.split)
  then show ?thesis
    by (simp add: load_memories_def load_memories_body_def Let_def)
qed

theorem load_memories_total_witness:
  \<open>load_memories toy_loads Missing = Inr (JDict [])
   \<and> load_memories toy_loads (Present (Inl (OtherError ''PermissionError''))) = Inr (JDict [])
   \<and> load_memories toy_loads (Present (Inr ('' '' @ [CHR 0x0A]))) = Inr (JDict [])
   \<and> load_memories toy_loads (Present (Inr ''{not json'')) = Inr (JDict [])
   \<and> load_memories toy_loads (Present (Inr (''{"7": {"long": ["Likes tea"]}}'' @ [CHR 0x0A])))
       = Inr (JDict [(''7'', JDict [(''long'', JList [JStr ''Likes tea''])])])\<close>
proof -
  let ?good = \<open>''{"7": {"long": ["Likes tea"]}}''\<close>
  let ?store = "JDict [(''7'', JDict [(''long'', JList [JStr ''Likes tea''])])]"
  have s1: "strip ('' '' @ [CHR 0x0A]) = []" by code_simp
  have s2: "strip ''{not json'' = ''{not json''" by code_simp
  have s3: "strip (?good @ [CHR 0x0A]) = ?good" by code_simp
  have l2: "toy_loads ''{not json'' = Inl (OtherError ''JSONDecodeError'')"
    by (simp add: toy_loads_def)
  have l3: "toy_loads ?good = Inr ?store"
    by (simp add: toy_loads_def)
  have a: "load_memories toy_loads Missing = Inr (JDict [])"
    using load_memories_total [where loads = toy_loads and memfile = Missing] by simp
  have b: "load_memories toy_loads (Present (Inl (OtherError ''PermissionError''))) = Inr (JDict [])"
    using load_memories_total [where loads = toy_loads
        and memfile = "Present (Inl (OtherError ''PermissionError''))"
        and e = "OtherError ''PermissionError''"]
    by simp
  have c: "load_memories toy_loads (Present (Inr ('' '' @ [CHR 0x0A]))) = Inr (JDict [])"
    using load_memories_total [where loads = toy_loads
        and memfile = "Present (Inr ('' '' @ [CHR 0x0A]))" and raw = "'' '' @ [CHR 0x0A]"] s1
    by simp
  have d: "load_memories toy_loads (Present (Inr ''{not json'')) = Inr (JDict [])"
    using load_memories_total [where loads = toy_loads
        and memfile = "Present (Inr ''{not json'')" and raw = "''{not json''"
        and e = "OtherError ''JSONDecodeError''"] s2 l2
    by simp
  have e: "load_memories toy_loads (Present (Inr (?good @ [CHR 0x0A]))) = Inr ?store"
    using load_memories_total [where loads = toy_loads
        and memfile = "Present (Inr (?good @ [CHR 0x0A]))" and raw = "?good @ [CHR 0x0A]"
        and v = ?store] s3 l3
    by simp
  from a b c d e show ?thesis by simp
qed

end
